theory Spec2Isabelle
  imports Complex_Main "HOL-Library.Word"
begin

section \<open>JavaScript values\<close>

text \<open>
  A JavaScript string is a sequence of UTF-16 code units. A code unit is modelled as a
  natural number (below 65536 in every string the program can hold), so that the rupee
  sign U+20B9 is one element, as it is for the regular expressions of the source.
\<close>

type_synonym code_unit = nat
type_synonym jsstring = "code_unit list"

definition js :: "string \<Rightarrow> jsstring" where
  "js s = map of_char s"

subsection \<open>Strings\<close>

text \<open>
  \<open>isWhiteSpace\<close> is the set that \<open>String.prototype.trim\<close> removes and that \<open>\s\<close> matches:
  the white space and line terminator code units. \<open>split_on\<close> is \<open>split\<close> with a one-unit
  separator. \<open>toLowerCase\<close> and \<open>toUpperCase\<close> convert the ASCII letters and leave every
  other code unit as it is. The parsers lowercase a line to look for ASCII keywords, and
  they and \<open>normalizeDate\<close> convert text that an ASCII pattern has matched: there the
  outcome is that of JavaScript (outside ASCII, only the Kelvin sign lowercases to an
  ASCII letter, \<open>k\<close>, and U+0130 to \<open>i\<close> with a combining dot; no keyword has either).
  \<open>normalizeVendor\<close> and the transaction type of a record convert arbitrary text, where
  JavaScript also converts the letters outside ASCII.
\<close>

definition isWhiteSpace :: "code_unit \<Rightarrow> bool" where
  "isWhiteSpace c \<longleftrightarrow>
     c = 9 \<or> c = 10 \<or> c = 11 \<or> c = 12 \<or> c = 13 \<or> c = 32 \<or> c = 160 \<or> c = 5760
     \<or> (8192 \<le> c \<and> c \<le> 8202) \<or> c = 8232 \<or> c = 8233 \<or> c = 8239 \<or> c = 8287
     \<or> c = 12288 \<or> c = 65279"

definition trim :: "jsstring \<Rightarrow> jsstring" where
  "trim s = rev (dropWhile isWhiteSpace (rev (dropWhile isWhiteSpace s)))"

fun split_on :: "code_unit \<Rightarrow> jsstring \<Rightarrow> jsstring list" where
  "split_on d [] = [[]]"
| "split_on d (c # cs) =
     (if c = d then [] # split_on d cs
      else (case split_on d cs of [] \<Rightarrow> [[c]] | l # ls \<Rightarrow> (c # l) # ls))"

definition lower_unit :: "code_unit \<Rightarrow> code_unit" where
  "lower_unit c = (if 65 \<le> c \<and> c \<le> 90 then c + 32 else c)"

definition upper_unit :: "code_unit \<Rightarrow> code_unit" where
  "upper_unit c = (if 97 \<le> c \<and> c \<le> 122 then c - 32 else c)"

definition toLowerCase :: "jsstring \<Rightarrow> jsstring" where
  "toLowerCase s = map lower_unit s"

definition toUpperCase :: "jsstring \<Rightarrow> jsstring" where
  "toUpperCase s = map upper_unit s"

fun startsWith :: "jsstring \<Rightarrow> jsstring \<Rightarrow> bool" where
  "startsWith s [] = True"
| "startsWith [] (k # ks) = False"
| "startsWith (c # cs) (k # ks) = (c = k \<and> startsWith cs ks)"

fun js_includes :: "jsstring \<Rightarrow> jsstring \<Rightarrow> bool" where
  "js_includes [] k = (k = [])"
| "js_includes (c # cs) k = (startsWith (c # cs) k \<or> js_includes cs k)"

subsection \<open>Regular expressions\<close>

text \<open>
  The regular expressions of the source are values of the datatype \<open>regex\<close>, matched by a
  backtracking matcher that follows the ECMAScript semantics: \<open>rmatch\<close> returns every way
  an expression can match at the current position, in the order in which backtracking
  tries them, so that the head of the list is the match JavaScript takes. A state is the
  code unit before the position (\<open>None\<close> at the start of the input), the rest of the
  input, and the captures made so far. \<open>Rep lo hi r\<close> is the greedy quantifier
  \<open>r{lo,hi}\<close> (\<open>hi = None\<close>: unbounded); an iteration that consumes nothing is rejected once
  the lower bound is met. The flag \<open>ic\<close> is the \<open>i\<close> flag; without the \<open>u\<close> flag an ASCII
  letter of a pattern matches exactly its two ASCII cases.
\<close>

datatype cclass = CChar code_unit | CRange code_unit code_unit | CDigit | CSpace

datatype regex =
    Chars bool "cclass list"
  | AnyChar
  | Empty
  | Seq regex regex
  | Alt regex regex
  | Rep nat "nat option" regex
  | Group nat regex
  | Bol
  | Eol
  | WordB

fun member_class :: "cclass \<Rightarrow> code_unit \<Rightarrow> bool" where
  "member_class (CChar a) c = (c = a)"
| "member_class (CRange a b) c = (a \<le> c \<and> c \<le> b)"
| "member_class CDigit c = (48 \<le> c \<and> c \<le> 57)"
| "member_class CSpace c = isWhiteSpace c"

definition swap_case :: "code_unit \<Rightarrow> code_unit" where
  "swap_case c =
     (if 65 \<le> c \<and> c \<le> 90 then c + 32 else if 97 \<le> c \<and> c \<le> 122 then c - 32 else c)"

definition in_class :: "bool \<Rightarrow> cclass \<Rightarrow> code_unit \<Rightarrow> bool" where
  "in_class ic cl c = (member_class cl c \<or> (ic \<and> member_class cl (swap_case c)))"

definition chars_match :: "bool \<Rightarrow> bool \<Rightarrow> cclass list \<Rightarrow> code_unit \<Rightarrow> bool" where
  "chars_match ic neg cls c = (list_ex (\<lambda>cl. in_class ic cl c) cls \<noteq> neg)"

definition isLineTerminator :: "code_unit \<Rightarrow> bool" where
  "isLineTerminator c \<longleftrightarrow> c = 10 \<or> c = 13 \<or> c = 8232 \<or> c = 8233"

definition isWordChar :: "code_unit \<Rightarrow> bool" where
  "isWordChar c \<longleftrightarrow>
     (97 \<le> c \<and> c \<le> 122) \<or> (65 \<le> c \<and> c \<le> 90) \<or> (48 \<le> c \<and> c \<le> 57) \<or> c = 95"

type_synonym mstate = "code_unit option \<times> jsstring \<times> (nat \<times> jsstring) list"

primrec rsize :: "regex \<Rightarrow> nat" where
  "rsize (Chars n cs) = 1"
| "rsize AnyChar = 1"
| "rsize Empty = 1"
| "rsize (Seq r s) = Suc (rsize r + rsize s)"
| "rsize (Alt r s) = Suc (rsize r + rsize s)"
| "rsize (Rep lo hi r) = Suc (rsize r)"
| "rsize (Group n r) = Suc (rsize r)"
| "rsize Bol = 1"
| "rsize Eol = 1"
| "rsize WordB = 1"

primrec rep_lo :: "regex \<Rightarrow> nat" where
  "rep_lo (Chars n cs) = 0"
| "rep_lo AnyChar = 0"
| "rep_lo Empty = 0"
| "rep_lo (Seq r s) = 0"
| "rep_lo (Alt r s) = 0"
| "rep_lo (Rep lo hi r) = lo"
| "rep_lo (Group n r) = 0"
| "rep_lo Bol = 0"
| "rep_lo Eol = 0"
| "rep_lo WordB = 0"

definition dec_hi :: "nat option \<Rightarrow> nat option" where
  "dec_hi hi = (case hi of None \<Rightarrow> None | Some h \<Rightarrow> Some (h - 1))"

function rmatch :: "bool \<Rightarrow> regex \<Rightarrow> mstate \<Rightarrow> mstate list" where
  "rmatch ic (Chars neg cls) (p, xs, caps) =
     (case xs of [] \<Rightarrow> []
      | c # cs \<Rightarrow> if chars_match ic neg cls c then [(Some c, cs, caps)] else [])"
| "rmatch ic AnyChar (p, xs, caps) =
     (case xs of [] \<Rightarrow> []
      | c # cs \<Rightarrow> if isLineTerminator c then [] else [(Some c, cs, caps)])"
| "rmatch ic Empty st = [st]"
| "rmatch ic (Seq r s) st = concat (map (rmatch ic s) (rmatch ic r st))"
| "rmatch ic (Alt r s) st = rmatch ic r st @ rmatch ic s st"
| "rmatch ic (Rep lo hi r) (p, xs, caps) =
     (if hi = Some 0 then [(p, xs, caps)]
      else concat (map (\<lambda>(p', xs', caps').
                     if length xs' < length xs \<or> (0 < lo \<and> length xs' = length xs)
                     then rmatch ic (Rep (lo - 1) (dec_hi hi) r) (p', xs', caps')
                     else [])
                   (rmatch ic r (p, xs, caps)))
           @ (if lo = 0 then [(p, xs, caps)] else []))"
| "rmatch ic (Group n r) (p, xs, caps) =
     map (\<lambda>(p', xs', caps'). (p', xs', (n, take (length xs - length xs') xs) # caps'))
       (rmatch ic r (p, xs, caps))"
| "rmatch ic Bol (p, xs, caps) = (if p = None then [(p, xs, caps)] else [])"
| "rmatch ic Eol (p, xs, caps) = (if xs = [] then [(p, xs, caps)] else [])"
| "rmatch ic WordB (p, xs, caps) =
     (if (case p of None \<Rightarrow> False | Some c \<Rightarrow> isWordChar c)
         \<noteq> (case xs of [] \<Rightarrow> False | c # cs \<Rightarrow> isWordChar c)
      then [(p, xs, caps)] else [])"
  by pat_completeness auto
termination
  by (relation "measures [\<lambda>(ic, r, st). rsize r, \<lambda>(ic, r, p, xs, caps). length xs,
                          \<lambda>(ic, r, st). rep_lo r]") auto

text \<open>
  A match is the matched text with its captures. \<open>rexec\<close> finds the leftmost match,
  as \<open>exec\<close>, \<open>test\<close>, \<open>match\<close> and \<open>replace\<close> do for an expression without the \<open>g\<close> flag;
  \<open>replace_all\<close> and \<open>match_all\<close> are \<open>replace\<close> and \<open>matchAll\<close> for an expression with the
  \<open>g\<close> flag: after a match the search resumes behind it (one unit further after an
  empty match), \<open>skip\<close> counting the units of the last match still to pass. \<open>grp_str\<close>
  reads a capture as a string; every group the parsers read this way takes part in
  each match of its expression.
\<close>

type_synonym rx_match = "jsstring \<times> (nat \<times> jsstring) list"

fun rexec :: "bool \<Rightarrow> regex \<Rightarrow> code_unit option \<Rightarrow> jsstring \<Rightarrow> rx_match option" where
  "rexec ic r p [] =
     (case rmatch ic r (p, [], []) of [] \<Rightarrow> None | (p', xs', caps) # ms \<Rightarrow> Some ([], caps))"
| "rexec ic r p (x # xs) =
     (case rmatch ic r (p, x # xs, []) of
        [] \<Rightarrow> rexec ic r (Some x) xs
      | (p', xs', caps) # ms \<Rightarrow> Some (take (length (x # xs) - length xs') (x # xs), caps))"

definition js_match :: "bool \<Rightarrow> regex \<Rightarrow> jsstring \<Rightarrow> rx_match option" where
  "js_match ic r s = rexec ic r None s"

definition js_test :: "bool \<Rightarrow> regex \<Rightarrow> jsstring \<Rightarrow> bool" where
  "js_test ic r s = (rexec ic r None s \<noteq> None)"

definition grp :: "nat \<Rightarrow> rx_match \<Rightarrow> jsstring option" where
  "grp n m = map_of (snd m) n"

fun replace_first ::
  "bool \<Rightarrow> regex \<Rightarrow> (rx_match \<Rightarrow> jsstring) \<Rightarrow> code_unit option \<Rightarrow> jsstring \<Rightarrow> jsstring" where
  "replace_first ic r f p [] =
     (case rmatch ic r (p, [], []) of [] \<Rightarrow> [] | (p', xs', caps) # ms \<Rightarrow> f ([], caps))"
| "replace_first ic r f p (x # xs) =
     (case rmatch ic r (p, x # xs, []) of
        [] \<Rightarrow> x # replace_first ic r f (Some x) xs
      | (p', xs', caps) # ms \<Rightarrow> f (take (length (x # xs) - length xs') (x # xs), caps) @ xs')"

fun replace_all ::
  "bool \<Rightarrow> regex \<Rightarrow> jsstring \<Rightarrow> nat \<Rightarrow> code_unit option \<Rightarrow> jsstring \<Rightarrow> jsstring" where
  "replace_all ic r rep skip p [] =
     (if skip = 0 \<and> rmatch ic r (p, [], []) \<noteq> [] then rep else [])"
| "replace_all ic r rep skip p (x # xs) =
     (if 0 < skip then replace_all ic r rep (skip - 1) (Some x) xs
      else case rmatch ic r (p, x # xs, []) of
             [] \<Rightarrow> x # replace_all ic r rep 0 (Some x) xs
           | (p', xs', caps) # ms \<Rightarrow>
               (if length xs' = length (x # xs)
                then rep @ x # replace_all ic r rep 0 (Some x) xs
                else rep @ replace_all ic r rep (length xs - length xs') (Some x) xs))"

fun match_all :: "bool \<Rightarrow> regex \<Rightarrow> nat \<Rightarrow> code_unit option \<Rightarrow> jsstring \<Rightarrow> rx_match list" where
  "match_all ic r skip p [] =
     (if skip = 0
      then (case rmatch ic r (p, [], []) of [] \<Rightarrow> [] | (p', xs', caps) # ms \<Rightarrow> [([], caps)])
      else [])"
| "match_all ic r skip p (x # xs) =
     (if 0 < skip then match_all ic r (skip - 1) (Some x) xs
      else case rmatch ic r (p, x # xs, []) of
             [] \<Rightarrow> match_all ic r 0 (Some x) xs
           | (p', xs', caps) # ms \<Rightarrow>
               (take (length (x # xs) - length xs') (x # xs), caps)
                 # match_all ic r (length xs - length xs') (Some x) xs)"

definition grp_str :: "nat \<Rightarrow> rx_match \<Rightarrow> jsstring" where
  "grp_str n m = (case grp n m of Some g \<Rightarrow> g | None \<Rightarrow> [])"

definition seqs :: "regex list \<Rightarrow> regex" where
  "seqs rs = foldr Seq rs Empty"

definition lit :: "string \<Rightarrow> regex" where
  "lit s = seqs (map (\<lambda>c. Chars False [CChar (of_char c)]) s)"

definition alts :: "regex list \<Rightarrow> regex" where
  "alts rs = (case rs of [] \<Rightarrow> Empty | r # rs' \<Rightarrow> foldl Alt r rs')"

definition ch :: "char \<Rightarrow> cclass" where
  "ch c = CChar (of_char c)"

definition digits :: "nat \<Rightarrow> nat option \<Rightarrow> regex" where
  "digits lo hi = Rep lo hi (Chars False [CDigit])"

subsection \<open>Numbers\<close>

text \<open>
  A JavaScript number is an IEEE double. A finite double is modelled by its exact
  rational value; the two infinities and NaN are values of their own. The sign of zero
  is not modelled.
\<close>

datatype jsnum = NaN | PosInf | NegInf | Fin rat

text \<open>
  Arithmetic on doubles is exact arithmetic followed by rounding to the nearest double,
  ties to the even significand (\<open>fl\<close>): the quantum of a value with binary exponent \<open>e\<close>
  is \<open>2^(e - 52)\<close>, not below \<open>2^-1074\<close>, and a result of magnitude \<open>2^1024\<close> or more is
  infinite. \<open>exp2_up\<close> and \<open>exp2_down\<close> find the binary exponent by halving and doubling;
  their first argument bounds the search at the exponent range of a double.
\<close>

definition int_power :: "rat \<Rightarrow> int \<Rightarrow> rat" where
  "int_power b e = (if 0 \<le> e then b ^ nat e else 1 / b ^ nat (- e))"

fun exp2_up :: "nat \<Rightarrow> rat \<Rightarrow> nat" where
  "exp2_up n a = (if a < 2 \<or> n = 0 then 0 else Suc (exp2_up (n - 1) (a / 2)))"

fun exp2_down :: "nat \<Rightarrow> rat \<Rightarrow> nat" where
  "exp2_down n a = (if 1 \<le> a \<or> n = 0 then 0 else Suc (exp2_down (n - 1) (a * 2)))"

declare exp2_up.simps [simp del] exp2_down.simps [simp del]

definition binary_exponent :: "rat \<Rightarrow> int" where
  "binary_exponent a = (if 1 \<le> a then int (exp2_up 1024 a) else - int (exp2_down 1022 a))"

definition round_half_even :: "rat \<Rightarrow> int" where
  "round_half_even x =
     (let f = \<lfloor>x\<rfloor>; d = x - of_int f
      in if d < 1 / 2 then f else if 1 / 2 < d then f + 1 else if even f then f else f + 1)"

definition fl :: "rat \<Rightarrow> jsnum" where
  "fl x =
     (if x = 0 then Fin 0
      else let a = \<bar>x\<bar>;
               q = max (binary_exponent a - 52) (- 1074);
               y = of_int (round_half_even (a / int_power 2 q)) * int_power 2 q
           in if int_power 2 1024 \<le> y then (if 0 < x then PosInf else NegInf)
              else Fin (if 0 < x then y else - y))"

fun js_times :: "jsnum \<Rightarrow> jsnum \<Rightarrow> jsnum" where
  "js_times (Fin a) (Fin b) = fl (a * b)"
| "js_times NaN y = NaN"
| "js_times x NaN = NaN"
| "js_times PosInf (Fin b) = (if b = 0 then NaN else if 0 < b then PosInf else NegInf)"
| "js_times NegInf (Fin b) = (if b = 0 then NaN else if 0 < b then NegInf else PosInf)"
| "js_times (Fin a) PosInf = (if a = 0 then NaN else if 0 < a then PosInf else NegInf)"
| "js_times (Fin a) NegInf = (if a = 0 then NaN else if 0 < a then NegInf else PosInf)"
| "js_times PosInf PosInf = PosInf"
| "js_times PosInf NegInf = NegInf"
| "js_times NegInf PosInf = NegInf"
| "js_times NegInf NegInf = PosInf"

fun js_divide :: "jsnum \<Rightarrow> jsnum \<Rightarrow> jsnum" where
  "js_divide (Fin a) (Fin b) =
     (if b = 0 then (if a = 0 then NaN else if 0 < a then PosInf else NegInf)
      else fl (a / b))"
| "js_divide NaN y = NaN"
| "js_divide x NaN = NaN"
| "js_divide PosInf (Fin b) = (if 0 \<le> b then PosInf else NegInf)"
| "js_divide NegInf (Fin b) = (if 0 \<le> b then NegInf else PosInf)"
| "js_divide (Fin a) PosInf = Fin 0"
| "js_divide (Fin a) NegInf = Fin 0"
| "js_divide PosInf PosInf = NaN"
| "js_divide PosInf NegInf = NaN"
| "js_divide NegInf PosInf = NaN"
| "js_divide NegInf NegInf = NaN"

fun Math_round :: "jsnum \<Rightarrow> jsnum" where
  "Math_round (Fin a) = Fin (of_int \<lfloor>a + 1 / 2\<rfloor>)"
| "Math_round x = x"

definition isNaN :: "jsnum \<Rightarrow> bool" where
  "isNaN x = (x = NaN)"

text \<open>
  \<open>parseFloat\<close>: white space is skipped, then the longest prefix that is a decimal literal
  (an optional sign, then \<open>Infinity\<close> or digits with an optional fraction and an optional
  exponent) gives the value, rounded to a double; without such a prefix the result is
  \<open>NaN\<close>.
\<close>

definition isDigit :: "code_unit \<Rightarrow> bool" where
  "isDigit c = (48 \<le> c \<and> c \<le> 57)"

definition digits_value :: "jsstring \<Rightarrow> nat" where
  "digits_value s = foldl (\<lambda>n c. 10 * n + (c - 48)) 0 s"

text \<open>The exponent part: \<open>e\<close> or \<open>E\<close>, an optional sign, and at least one digit.\<close>

definition exponent_part :: "jsstring \<Rightarrow> int" where
  "exponent_part s =
     (case s of
        [] \<Rightarrow> 0
      | c # r \<Rightarrow>
          if c = 101 \<or> c = 69
          then (case r of
                  [] \<Rightarrow> 0
                | d # r' \<Rightarrow>
                    if d = 43 then (if takeWhile isDigit r' = [] then 0
                                    else int (digits_value (takeWhile isDigit r')))
                    else if d = 45 then (if takeWhile isDigit r' = [] then 0
                                         else - int (digits_value (takeWhile isDigit r')))
                    else int (digits_value (takeWhile isDigit r)))
          else 0)"

definition unsigned_decimal :: "jsstring \<Rightarrow> rat option" where
  "unsigned_decimal s =
     (let ip = takeWhile isDigit s; r1 = dropWhile isDigit s
      in if startsWith r1 (js ''.'')
         then (let fp = takeWhile isDigit (tl r1); r2 = dropWhile isDigit (tl r1)
               in if ip = [] \<and> fp = [] then None
                  else Some ((of_nat (digits_value ip)
                              + of_nat (digits_value fp) / 10 ^ length fp)
                             * int_power 10 (exponent_part r2)))
         else if ip = [] then None
         else Some (of_nat (digits_value ip) * int_power 10 (exponent_part r1)))"

definition unsigned_literal :: "bool \<Rightarrow> jsstring \<Rightarrow> jsnum" where
  "unsigned_literal neg s =
     (if startsWith s (js ''Infinity'') then (if neg then NegInf else PosInf)
      else case unsigned_decimal s of
             None \<Rightarrow> NaN
           | Some v \<Rightarrow> fl (if neg then - v else v))"

definition parseFloat :: "jsstring \<Rightarrow> jsnum" where
  "parseFloat s =
     (case dropWhile isWhiteSpace s of
        [] \<Rightarrow> NaN
      | c # r \<Rightarrow> if c = 43 then unsigned_literal False r
                 else if c = 45 then unsigned_literal True r
                 else unsigned_literal False (c # r))"

text \<open>
  \<open>toFixed(2)\<close>: \<open>NaN\<close> and the infinities print their names; a value below \<open>10^21\<close> in
  magnitude prints the integer \<open>n\<close> nearest to a hundred times the magnitude (the larger
  one of two) with a point before its last two digits; a larger value prints as
  \<open>toString\<close> does.
\<close>

function decimal_digits :: "nat \<Rightarrow> jsstring" where
  "decimal_digits n = (if n < 10 then [48 + n] else decimal_digits (n div 10) @ [48 + n mod 10])"
  by pat_completeness auto
termination
  by (relation "measure (\<lambda>n. n)") auto

declare decimal_digits.simps [simp del]

text \<open>
  \<open>Number::toString\<close> for a finite value of at least \<open>10^21\<close>, which is an integer: the
  shortest decimal \<open>s \<times> 10^(n - k)\<close> with \<open>k\<close> digits that rounds to the value, the
  closest one where several do, written with an exponent.
\<close>

definition shortest_candidate :: "rat \<Rightarrow> nat \<Rightarrow> (nat \<times> nat) option" where
  "shortest_candidate x k =
     (let d = length (decimal_digits (nat \<lfloor>x\<rfloor>));
          unit = (10 :: rat) ^ (d - k);
          lo = nat \<lfloor>x / unit\<rfloor>;
          hi = lo + 1;
          ok_lo = (fl (of_nat lo * unit) = Fin x);
          ok_hi = (fl (of_nat hi * unit) = Fin x);
          pick_hi = (ok_hi \<and> (\<not> ok_lo \<or> of_nat hi * unit - x < x - of_nat lo * unit
                              \<or> (of_nat hi * unit - x = x - of_nat lo * unit \<and> even hi)))
      in if pick_hi then (if hi = 10 ^ k then Some (10 ^ (k - 1), d + 1) else Some (hi, d))
         else if ok_lo then Some (lo, d)
         else None)"

fun shortest_decimal :: "rat \<Rightarrow> nat list \<Rightarrow> nat \<times> nat" where
  "shortest_decimal x [] = (nat \<lfloor>x\<rfloor>, length (decimal_digits (nat \<lfloor>x\<rfloor>)))"
| "shortest_decimal x (k # ks) =
     (case shortest_candidate x k of Some sn \<Rightarrow> sn | None \<Rightarrow> shortest_decimal x ks)"

function strip_zeros :: "nat \<Rightarrow> nat" where
  "strip_zeros s = (if s = 0 \<or> s mod 10 \<noteq> 0 then s else strip_zeros (s div 10))"
  by pat_completeness auto
termination
  by (relation "measure (\<lambda>n. n)") auto

declare strip_zeros.simps [simp del]

definition large_toString :: "rat \<Rightarrow> jsstring" where
  "large_toString x =
     (let (s0, n) = shortest_decimal x [1 ..< 18];
          ds = decimal_digits (strip_zeros s0)
      in (if length ds = 1 then ds else [hd ds] @ js ''.'' @ tl ds)
         @ js ''e+'' @ decimal_digits (n - 1))"

definition toFixed2_unsigned :: "rat \<Rightarrow> jsstring" where
  "toFixed2_unsigned x =
     (if 10 ^ 21 \<le> x then large_toString x
      else let m = decimal_digits (nat \<lfloor>x * 100 + 1 / 2\<rfloor>);
               m' = (if length m \<le> 2 then replicate (3 - length m) 48 @ m else m)
           in take (length m' - 2) m' @ js ''.'' @ drop (length m' - 2) m')"

fun toFixed2 :: "jsnum \<Rightarrow> jsstring" where
  "toFixed2 NaN = js ''NaN''"
| "toFixed2 PosInf = js ''Infinity''"
| "toFixed2 NegInf = js ''-Infinity''"
| "toFixed2 (Fin x) =
     (if x < 0 then js ''-'' @ toFixed2_unsigned (- x) else toFixed2_unsigned x)"

section \<open>Data model (types/expense.ts)\<close>

datatype ExpenseSource = Phonepe | Axis | Hdfc | Payzap

datatype DuplicatePolicy = Skip | Update | Mark_duplicate

text \<open>\<open>RawTransactionFields\<close>: an object from field names to strings, in insertion order.\<close>

type_synonym RawTransactionFields = "(string \<times> jsstring) list"

text \<open>
  \<open>RawTransaction\<close>, the output of a parser. An optional field that is absent
  (\<open>undefined\<close>) is \<open>None\<close>.
\<close>

record RawTransaction =
  sourceTransactionId :: "jsstring option"
  raw_date :: jsstring
  raw_amount :: jsstring
  raw_vendor :: jsstring
  transactionType :: "jsstring option"
  raw_category :: "jsstring option"
  raw_status :: "jsstring option"
  rawFields :: RawTransactionFields

section \<open>Parsers (parsers/*.ts)\<close>

text \<open>
  Each parser splits the text into lines, trims them and drops the empty ones, then
  visits the lines in order; a line yields one transaction or none.
\<close>

subsection \<open>Axis Bank\<close>

definition parser_lines :: "jsstring \<Rightarrow> jsstring list" where
  "parser_lines pdfText = filter (\<lambda>l. 0 < length l) (map trim (split_on 10 pdfText))"

definition Axis_DATE_REGEX :: regex where
  "Axis_DATE_REGEX =
     Seq Bol (Group 1 (seqs [digits 2 (Some 2), Chars False [ch CHR ''-'', ch CHR ''/''],
                             digits 2 (Some 2), Chars False [ch CHR ''-'', ch CHR ''/''],
                             digits 4 (Some 4)]))"

definition Axis_AMOUNT_REGEX :: regex where
  "Axis_AMOUNT_REGEX =
     Group 1 (seqs [Rep 1 None (Chars False [CDigit, ch CHR '','']),
                    Chars False [ch CHR ''.''], digits 2 (Some 2)])"

definition Axis_HEADER_KEYWORDS :: "jsstring list" where
  "Axis_HEADER_KEYWORDS =
     map js [''tran date'', ''withdrawal'', ''deposit'', ''balance'', ''chq'', ''ref.no'',
             ''particulars'']"

definition separator_line :: regex where
  "separator_line =
     seqs [Bol, Rep 1 None (Chars False [ch CHR ''-'', ch CHR ''='', ch CHR ''*'']), Eol]"

definition credit_words :: regex where
  "credit_words = alts (map lit [''credit'', ''deposit'', ''received'', ''salary'', ''inward''])"

definition Axis_row :: "jsstring \<Rightarrow> RawTransaction option" where
  "Axis_row line =
     (if list_ex (\<lambda>kw. js_includes (toLowerCase line) kw) Axis_HEADER_KEYWORDS then None
      else if js_test False separator_line line then None
      else case js_match False Axis_DATE_REGEX line of
        None \<Rightarrow> None
      | Some dateMatch \<Rightarrow>
          (let date = grp_str 1 dateMatch;
               amounts = map (grp_str 1)
                           (match_all False Axis_AMOUNT_REGEX 0 None line);
               amount = (case amounts of [] \<Rightarrow> js ''0'' | a # as \<Rightarrow> a);
               narration =
                 trim (replace_all False (digits 6 None) [] 0 None
                        (replace_all False Axis_AMOUNT_REGEX [] 0 None
                          (replace_first False Axis_DATE_REGEX (\<lambda>m. []) None line)));
               vendor = (if narration \<noteq> [] then narration else js ''UNKNOWN'');
               ttype = (if js_test True credit_words narration then js ''CREDIT''
                        else js ''DEBIT'')
           in if amount \<noteq> [] \<and> amount \<noteq> js ''0''
              then Some \<lparr>sourceTransactionId = None, raw_date = date, raw_amount = amount,
                         raw_vendor = vendor, transactionType = Some ttype,
                         raw_category = None, raw_status = Some (js ''completed''),
                         rawFields = [(''date'', date), (''amount'', amount),
                                      (''vendor'', vendor), (''line'', line)]\<rparr>
              else None))"

definition Axis_parse :: "jsstring \<Rightarrow> RawTransaction list" where
  "Axis_parse pdfText = List.map_filter Axis_row (parser_lines pdfText)"

subsection \<open>HDFC\<close>

definition Hdfc_DATE_REGEX :: regex where
  "Hdfc_DATE_REGEX =
     Seq Bol (Group 1 (seqs [digits 2 (Some 2), Chars False [ch CHR ''/''],
                             digits 2 (Some 2), Chars False [ch CHR ''/''],
                             digits 2 (Some 4)]))"

definition Hdfc_AMOUNT_REGEX :: regex where
  "Hdfc_AMOUNT_REGEX =
     Group 1 (seqs [Rep 1 None (Chars False [CDigit, ch CHR '','']),
                    Chars False [ch CHR ''.''], digits 2 (Some 2)])"

definition UPI_NARRATION_REGEX :: regex where
  "UPI_NARRATION_REGEX =
     seqs [lit ''UPI'', Chars False [ch CHR ''/'', ch CHR ''-''],
           Group 1 (Rep 1 None (Chars True [ch CHR ''/''])),
           Chars False [ch CHR ''/''],
           Group 2 (Rep 1 None (Chars True [ch CHR ''/''])),
           Rep 0 (Some 1) (Chars False [ch CHR ''/'']),
           Rep 0 (Some 1) (Group 3 (Rep 0 None AnyChar))]"

definition Hdfc_HEADER_KEYWORDS :: "jsstring list" where
  "Hdfc_HEADER_KEYWORDS =
     map js [''date'', ''narration'', ''chq'', ''withdrawal'', ''deposit'', ''closing'',
             ''balance'', ''value date'']"

definition Hdfc_separator_line :: regex where
  "Hdfc_separator_line =
     seqs [Bol, Rep 1 None (Chars False [ch CHR ''-'', ch CHR ''='', ch CHR ''*'', CSpace]), Eol]"

definition two_digit_year :: regex where
  "two_digit_year =
     seqs [Group 1 (digits 2 (Some 2)), Chars False [ch CHR ''/''],
           Group 2 (digits 2 (Some 2)), Chars False [ch CHR ''/''],
           Group 3 (digits 2 (Some 2)), Eol]"

text \<open>\<open>parseInt\<close> on a string of decimal digits.\<close>

definition parseInt_digits :: "jsstring \<Rightarrow> nat" where
  "parseInt_digits s = foldl (\<lambda>n c. 10 * n + (c - 48)) 0 s"

definition expandYear :: "jsstring \<Rightarrow> jsstring" where
  "expandYear d0 =
     replace_first False two_digit_year
       (\<lambda>m. let d = grp_str 1 m; mo = grp_str 2 m; y = grp_str 3 m;
                 full = (if parseInt_digits y \<le> 50 then js ''20'' @ y else js ''19'' @ y)
             in d @ js ''/'' @ mo @ js ''/'' @ full)
       None d0"

definition Hdfc_row :: "jsstring \<Rightarrow> RawTransaction option" where
  "Hdfc_row line =
     (let lower = toLowerCase line in
      if list_ex (\<lambda>kw. startsWith lower kw) Hdfc_HEADER_KEYWORDS then None
      else if js_test False Hdfc_separator_line line then None
      else case js_match False Hdfc_DATE_REGEX line of
        None \<Rightarrow> None
      | Some dateMatch \<Rightarrow>
          (let date = expandYear (grp_str 1 dateMatch);
               amounts = map (grp_str 1) (match_all False Hdfc_AMOUNT_REGEX 0 None line);
               amount = (case amounts of [] \<Rightarrow> js ''0'' | a # as \<Rightarrow> a);
               narrationRaw =
                 trim (replace_all False (digits 6 None) [] 0 None
                        (replace_all False Hdfc_AMOUNT_REGEX [] 0 None
                          (replace_first False Hdfc_DATE_REGEX (\<lambda>m. []) None line)));
               upiMatch = js_match True UPI_NARRATION_REGEX narrationRaw;
               vendor = (case upiMatch of
                           None \<Rightarrow> narrationRaw
                         | Some m \<Rightarrow> if trim (grp_str 1 m) \<noteq> [] then trim (grp_str 1 m)
                                     else narrationRaw);
               sourceTransactionId = (case upiMatch of
                                        None \<Rightarrow> None
                                      | Some m \<Rightarrow> map_option trim (grp 2 m));
               ttype = (if js_test True credit_words narrationRaw then js ''CREDIT''
                        else js ''DEBIT'')
           in if amount \<noteq> [] \<and> amount \<noteq> js ''0'' \<and> vendor \<noteq> []
              then Some \<lparr>sourceTransactionId = sourceTransactionId, raw_date = date,
                         raw_amount = amount, raw_vendor = vendor,
                         transactionType = Some ttype, raw_category = None,
                         raw_status = Some (js ''completed''),
                         rawFields = [(''date'', date), (''amount'', amount),
                                      (''vendor'', narrationRaw)]\<rparr>
              else None))"

definition Hdfc_parse :: "jsstring \<Rightarrow> RawTransaction list" where
  "Hdfc_parse pdfText = List.map_filter Hdfc_row (parser_lines pdfText)"

subsection \<open>PayZapp\<close>

definition letters :: cclass where "letters = CRange 65 90"

definition PayZap_DATE_REGEX :: regex where
  "PayZap_DATE_REGEX =
     Group 1 (seqs [digits 1 (Some 2), Chars False [CSpace, ch CHR ''-''],
                    Rep 3 None (Chars False [CRange 65 90, CRange 97 122]),
                    Chars False [CSpace, ch CHR ''-''], digits 4 (Some 4)])"

definition rupee :: code_unit where "rupee = 8377"

definition amount_digits :: regex where
  "amount_digits =
     Seq (Rep 1 None (Chars False [CDigit, ch CHR '','']))
         (Rep 0 (Some 1) (Seq (Chars False [ch CHR ''.'']) (digits 1 (Some 2))))"

definition PayZap_AMOUNT_REGEX :: regex where
  "PayZap_AMOUNT_REGEX =
     seqs [Alt (lit ''INR'') (Chars False [CChar rupee]), Rep 0 None (Chars False [CSpace]),
           Group 1 amount_digits]"

definition PayZap_TYPE_REGEX :: regex where
  "PayZap_TYPE_REGEX = seqs [WordB, Group 1 (Alt (lit ''Dr'') (lit ''Cr'')), WordB]"

definition PayZap_HEADER_KEYWORDS :: "jsstring list" where
  "PayZap_HEADER_KEYWORDS =
     map js [''date'', ''description'', ''amount'', ''transaction'', ''type'', ''balance'']"

definition PayZap_row :: "jsstring list \<Rightarrow> nat \<Rightarrow> RawTransaction option" where
  "PayZap_row lines i =
     (let line = lines ! i in
      if list_ex (\<lambda>kw. startsWith (toLowerCase line) kw) PayZap_HEADER_KEYWORDS then None
      else case js_match False PayZap_DATE_REGEX line of
        None \<Rightarrow> None
      | Some dateMatch \<Rightarrow>
          (let date = grp_str 1 dateMatch;
               amountLine = (if \<not> js_test True PayZap_AMOUNT_REGEX line \<and> i + 1 < length lines
                             then lines ! (i + 1) else line);
               amount = (case js_match True PayZap_AMOUNT_REGEX amountLine of
                           None \<Rightarrow> js ''0'' | Some m \<Rightarrow> grp_str 1 m);
               stripped =
                 trim (replace_all False (digits 8 None) [] 0 None
                        (replace_first True PayZap_TYPE_REGEX (\<lambda>m. []) None
                          (replace_first True PayZap_AMOUNT_REGEX (\<lambda>m. []) None
                            (replace_first False PayZap_DATE_REGEX (\<lambda>m. []) None line))));
               vendor = (if stripped \<noteq> [] then stripped else js ''UNKNOWN'');
               ttype = (case js_match True PayZap_TYPE_REGEX line of
                          None \<Rightarrow> js ''DEBIT''
                        | Some m \<Rightarrow> if toUpperCase (grp_str 1 m) = js ''CR'' then js ''CREDIT''
                                    else js ''DEBIT'')
           in if amount \<noteq> [] \<and> amount \<noteq> js ''0''
              then Some \<lparr>sourceTransactionId = None, raw_date = date, raw_amount = amount,
                         raw_vendor = vendor, transactionType = Some ttype,
                         raw_category = None, raw_status = Some (js ''completed''),
                         rawFields = [(''date'', date), (''amount'', amount),
                                      (''vendor'', vendor)]\<rparr>
              else None))"

definition PayZap_parse :: "jsstring \<Rightarrow> RawTransaction list" where
  "PayZap_parse pdfText =
     (let lines = parser_lines pdfText
      in List.map_filter (PayZap_row lines) [0 ..< length lines])"

subsection \<open>PhonePe\<close>

definition PhonePe_DATE_REGEX :: regex where
  "PhonePe_DATE_REGEX =
     Group 1 (seqs [digits 1 (Some 2), Rep 1 None (Chars False [CSpace]),
                    Rep 3 None (Chars False [CRange 65 90, CRange 97 122]),
                    Rep 1 None (Chars False [CSpace]), digits 4 (Some 4)])"

definition PhonePe_AMOUNT_REGEX :: regex where
  "PhonePe_AMOUNT_REGEX =
     seqs [Chars False [CChar rupee], Rep 0 None (Chars False [CSpace]), Group 1 amount_digits]"

definition PhonePe_STATUS_REGEX :: regex where
  "PhonePe_STATUS_REGEX =
     Seq (Rep 0 (Some 1)
            (seqs [lit ''Status'', Rep 0 None (Chars False [CSpace]),
                   Rep 0 (Some 1) (Chars False [ch CHR '':'', ch CHR ''-'']),
                   Rep 0 None (Chars False [CSpace])]))
         (Group 1 (alts (map lit [''Completed'', ''Failed'', ''Pending'', ''Reversed''])))"

definition PhonePe_TXN_ID_REGEX :: regex where
  "PhonePe_TXN_ID_REGEX =
     seqs [lit ''UPI'', Rep 1 None (Chars False [CSpace]), lit ''transaction'',
           Rep 1 None (Chars False [CSpace]), lit ''ID'', Rep 0 None (Chars False [CSpace]),
           Rep 0 (Some 1) (Chars False [ch CHR '':'', ch CHR ''-'']),
           Rep 0 None (Chars False [CSpace]),
           Group 1 (Rep 1 None (Chars False [CRange 65 90, CRange 97 122, CDigit]))]"

definition PhonePe_TYPE_REGEX :: regex where
  "PhonePe_TYPE_REGEX =
     Seq Bol (Group 1 (alts (map lit [''Paid'', ''Received'', ''Refund'', ''Sent'',
                                      ''Transferred''])))"

definition mapStatus :: "jsstring \<Rightarrow> jsstring" where
  "mapStatus raw =
     (let lower = toLowerCase raw in
      if lower = js ''completed'' then js ''completed''
      else if lower = js ''pending'' then js ''pending''
      else if lower = js ''failed'' then js ''failed''
      else if lower = js ''reversed'' then js ''reversed''
      else js ''completed'')"

text \<open>
  The backward scan: \<open>back\<close> runs from \<open>i - 1\<close> down to \<open>Math.max(0, i - 5)\<close> and stops at
  the first line with a date; the result is the pair of \<open>date\<close> and \<open>vendor\<close>.
\<close>

fun scan_back :: "jsstring list \<Rightarrow> nat list \<Rightarrow> jsstring \<times> jsstring" where
  "scan_back lines [] = ([], [])"
| "scan_back lines (back # rest) =
     (case js_match False PhonePe_DATE_REGEX (lines ! back) of
        Some dateMatch \<Rightarrow> (grp_str 1 dateMatch, if 0 < back then lines ! (back - 1) else [])
      | None \<Rightarrow> scan_back lines rest)"

text \<open>
  One step of the forward scan over \<open>lines[fwd]\<close>, on the triple of \<open>status\<close>,
  \<open>sourceTransactionId\<close> and \<open>transactionType\<close>.
\<close>

definition scan_fwd_step ::
  "jsstring \<Rightarrow> jsstring \<times> jsstring option \<times> jsstring \<Rightarrow> jsstring \<times> jsstring option \<times> jsstring" where
  "scan_fwd_step l acc =
     (case acc of (status, txnId, ttype) \<Rightarrow>
        ((case js_match True PhonePe_STATUS_REGEX l of
            Some m \<Rightarrow> grp_str 1 m | None \<Rightarrow> status),
         (case js_match True PhonePe_TXN_ID_REGEX l of
            Some m \<Rightarrow> Some (grp_str 1 m) | None \<Rightarrow> txnId),
         (case js_match True PhonePe_TYPE_REGEX l of
            Some m \<Rightarrow> grp_str 1 m | None \<Rightarrow> ttype)))"

definition PhonePe_row :: "jsstring list \<Rightarrow> nat \<Rightarrow> RawTransaction option" where
  "PhonePe_row lines i =
     (if js_test False PhonePe_AMOUNT_REGEX (lines ! i)
      then (let (date, vendor) = scan_back lines (rev [i - 5 ..< i]);
                amount = (case js_match False PhonePe_AMOUNT_REGEX (lines ! i) of
                            Some m \<Rightarrow> grp_str 1 m | None \<Rightarrow> js ''0'');
                (status, txnId, ttype) =
                  fold (\<lambda>fwd. scan_fwd_step (lines ! fwd))
                    [i + 1 ..< min (length lines) (i + 5)]
                    (js ''Completed'', None, [])
            in if vendor \<noteq> [] \<and> date \<noteq> []
               then Some \<lparr>sourceTransactionId = txnId, raw_date = date, raw_amount = amount,
                          raw_vendor = vendor, transactionType = Some ttype,
                          raw_category = None, raw_status = Some (mapStatus status),
                          rawFields = [(''date'', date), (''amount'', amount),
                                       (''vendor'', vendor), (''status'', status),
                                       (''transactionType'', ttype)]\<rparr>
               else None)
      else None)"

definition PhonePe_parse :: "jsstring \<Rightarrow> RawTransaction list" where
  "PhonePe_parse pdfText =
     (let lines = parser_lines pdfText
      in List.map_filter (PhonePe_row lines) [0 ..< length lines])"

section \<open>Normalization and fingerprints (utils/deduplication.ts)\<close>

text \<open>
  The warnings that \<open>normalizeDate\<close> and \<open>normalizeAmount\<close> log are not modelled.
\<close>

definition currency_and_space :: regex where
  "currency_and_space =
     Chars False [CChar rupee, ch CHR ''$'', CChar 8364, CChar 163, ch CHR '','', CSpace]"

definition normalizeAmount :: "jsstring \<Rightarrow> jsnum" where
  "normalizeAmount rawAmount =
     (let cleaned = trim (replace_all False currency_and_space [] 0 None rawAmount);
          parsed = parseFloat cleaned
      in if isNaN parsed then Fin 0
         else js_divide (Math_round (js_times parsed (Fin 100))) (Fin 100))"


definition iso_date :: regex where
  "iso_date =
     seqs [Bol, digits 4 (Some 4), Chars False [ch CHR ''-''], digits 2 (Some 2),
           Chars False [ch CHR ''-''], digits 2 (Some 2), Eol]"

definition long_date :: regex where
  "long_date =
     seqs [Bol, Group 1 (digits 1 (Some 2)),
           Chars False [CSpace, ch CHR ''-'', ch CHR ''/''],
           Group 2 (Rep 3 None (Chars False [CRange 65 90, CRange 97 122])),
           Chars False [CSpace, ch CHR ''-'', ch CHR ''/''],
           Group 3 (digits 4 (Some 4)), Eol]"

definition slash_date :: regex where
  "slash_date =
     seqs [Bol, Group 1 (digits 1 (Some 2)), Chars False [ch CHR ''/'', ch CHR ''-''],
           Group 2 (digits 1 (Some 2)), Chars False [ch CHR ''/'', ch CHR ''-''],
           Group 3 (digits 4 (Some 4)), Eol]"

definition monthNames :: "(jsstring \<times> jsstring) list" where
  "monthNames =
     map (\<lambda>(k, v). (js k, js v))
       [(''jan'', ''01''), (''feb'', ''02''), (''mar'', ''03''), (''apr'', ''04''),
        (''may'', ''05''), (''jun'', ''06''), (''jul'', ''07''), (''aug'', ''08''),
        (''sep'', ''09''), (''oct'', ''10''), (''nov'', ''11''), (''dec'', ''12'')]"

definition padStart2 :: "jsstring \<Rightarrow> jsstring" where
  "padStart2 s = replicate (2 - length s) 48 @ s"

definition normalizeDate :: "jsstring \<Rightarrow> jsstring" where
  "normalizeDate rawDate =
     (let trimmed = trim rawDate;
          slash = (case js_match False slash_date trimmed of
                     Some m \<Rightarrow> grp_str 3 m @ js ''-'' @ padStart2 (grp_str 2 m) @ js ''-''
                               @ padStart2 (grp_str 1 m)
                   | None \<Rightarrow> trimmed)
      in if js_test False iso_date trimmed then trimmed
         else case js_match False long_date trimmed of
                Some m \<Rightarrow>
                  (case map_of monthNames (take 3 (toLowerCase (grp_str 2 m))) of
                     Some month \<Rightarrow> grp_str 3 m @ js ''-'' @ month @ js ''-''
                                   @ padStart2 (grp_str 1 m)
                   | None \<Rightarrow> slash)
              | None \<Rightarrow> slash)"

definition not_upper_alnum_space :: regex where
  "not_upper_alnum_space = Chars True [CRange 65 90, CRange 48 57, ch CHR '' '']"

definition normalizeVendor :: "jsstring \<Rightarrow> jsstring" where
  "normalizeVendor rawVendor =
     trim (replace_all False (Rep 1 None (Chars False [CSpace])) (js '' '') 0 None
            (replace_all False not_upper_alnum_space [] 0 None
              (trim (toUpperCase rawVendor))))"

record NormalizedFields =
  n_date :: jsstring
  n_amount :: jsnum
  n_vendor :: jsstring
  n_transactionType :: jsstring

definition normalizeRecord :: "RawTransaction \<Rightarrow> NormalizedFields" where
  "normalizeRecord raw =
     \<lparr>n_date = normalizeDate (raw_date raw),
      n_amount = normalizeAmount (raw_amount raw),
      n_vendor = normalizeVendor (raw_vendor raw),
      n_transactionType =
        trim (toUpperCase (case transactionType raw of Some t \<Rightarrow> t | None \<Rightarrow> []))\<rparr>"

text \<open>
  The hash of the crypto library is a parameter of \<open>computeFingerprint\<close>: a function from
  the payload to a digest of 256 bits, which \<open>Hex_stringify\<close> renders, most significant
  digit first. The optional argument \<open>transactionType\<close> is \<open>None\<close> when it is omitted and
  takes the default \<open>''\<close>.
\<close>

type_synonym digest = "256 word"

definition hex_digit :: "nat \<Rightarrow> code_unit" where
  "hex_digit n = (if n < 10 then 48 + n else 87 + n)"

definition Hex_stringify :: "digest \<Rightarrow> jsstring" where
  "Hex_stringify w = map (\<lambda>i. hex_digit (unat w div 16 ^ i mod 16)) (rev [0 ..< 64])"

definition computeFingerprint ::
  "(jsstring \<Rightarrow> digest) \<Rightarrow> jsstring \<Rightarrow> jsnum \<Rightarrow> jsstring \<Rightarrow> jsstring option \<Rightarrow> jsstring" where
  "computeFingerprint SHA256 d a v t =
     (let ttype = (case t of None \<Rightarrow> [] | Some x \<Rightarrow> x);
          payload = d @ js ''|'' @ toFixed2 a @ js ''|'' @ v @ js ''|'' @ trim (toUpperCase ttype)
      in Hex_stringify (SHA256 payload))"

section \<open>Canonical expenses (types/expense.ts)\<close>

text \<open>\<open>CanonicalExpense\<close>; \<open>null\<close> is \<open>None\<close>.\<close>

record CanonicalExpense =
  expense_id :: jsstring
  fingerprint :: jsstring
  source :: ExpenseSource
  source_transaction_id :: "jsstring option"
  date :: jsstring
  amount :: jsnum
  currency :: jsstring
  vendor :: jsstring
  category :: "jsstring option"
  status :: jsstring
  raw_text :: RawTransactionFields
  source_file_checksum :: jsstring
  created_at :: jsstring
  updated_at :: jsstring

datatype UpsertAction = Created | Skipped | Updated | Marked_duplicate

record UpsertResult =
  action :: UpsertAction
  result_id :: jsstring

section \<open>The expense collection and upsertExpense (services/firestoreService.ts)\<close>

text \<open>
  A stored expense document holds the fields of a \<open>CanonicalExpense\<close> and, when it was
  written by the \<open>mark_duplicate\<close> branch, the two extra fields \<open>_duplicateOf\<close> and
  \<open>_isDuplicate\<close> (absent, \<open>None\<close>, otherwise). The collection is a map from document
  keys to documents. The store is the external collaborator; every string is taken as
  a key it accepts.
\<close>

record ExpenseDoc =
  doc_fields :: CanonicalExpense
  duplicateOf :: "jsstring option"
  isDuplicate :: "bool option"

type_synonym expense_store = "jsstring \<rightharpoonup> ExpenseDoc"

text \<open>
  \<open>const docId = expense.source_transaction_id ?? expense.fingerprint\<close>: the right operand
  is taken only when the left one is \<open>null\<close> or \<open>undefined\<close>.
\<close>

definition upsert_docId :: "CanonicalExpense \<Rightarrow> jsstring" where
  "upsert_docId expense =
     (case source_transaction_id expense of Some t \<Rightarrow> t | None \<Rightarrow> fingerprint expense)"

text \<open>
  \<open>upsertExpense\<close>. The body of \<open>runTransaction\<close> runs as one step on the collection: it
  reads the document at \<open>docId\<close> and writes at most once. The two values the body takes
  from its environment are parameters: \<open>autoId\<close>, the key of
  \<open>doc(collection(db, EXPENSES_COLLECTION))\<close>, and \<open>now\<close>, the value of
  \<open>new Date().toISOString()\<close>. \<open>tx.update\<close> replaces the fields it is given and keeps the
  others; \<open>tx.set\<close> replaces the document.
\<close>

definition upsertExpense ::
  "jsstring \<Rightarrow> jsstring \<Rightarrow> expense_store \<Rightarrow> CanonicalExpense \<Rightarrow> DuplicatePolicy
     \<Rightarrow> expense_store \<times> UpsertResult" where
  "upsertExpense autoId now store expense policy =
     (let docId = upsert_docId expense in
      case store docId of
        Some existing \<Rightarrow>
          (case policy of
             Update \<Rightarrow>
               (store(docId \<mapsto> existing\<lparr>doc_fields := expense\<lparr>updated_at := now\<rparr>\<rparr>),
                \<lparr>action = Updated, result_id = docId\<rparr>)
           | Mark_duplicate \<Rightarrow>
               (store(autoId \<mapsto>
                  \<lparr>doc_fields = expense\<lparr>updated_at := now\<rparr>,
                   duplicateOf = Some docId, isDuplicate = Some True\<rparr>),
                \<lparr>action = Marked_duplicate, result_id = autoId\<rparr>)
           | Skip \<Rightarrow> (store, \<lparr>action = Skipped, result_id = docId\<rparr>))
      | None \<Rightarrow>
          (store(docId \<mapsto>
             \<lparr>doc_fields = expense\<lparr>expense_id := docId\<rparr>,
              duplicateOf = None, isDuplicate = None\<rparr>),
           \<lparr>action = Created, result_id = docId\<rparr>))"

text \<open>
  The canonical expense that \<open>upload\<close> builds for one row (composables/useUpload.ts,
  lines 163 to 180), from the raw transaction, its normalized fields, its fingerprint,
  the source, the file checksum and the two readings of the clock.
\<close>

definition buildExpense ::
  "RawTransaction \<Rightarrow> NormalizedFields \<Rightarrow> jsstring \<Rightarrow> ExpenseSource \<Rightarrow> jsstring
     \<Rightarrow> jsstring \<Rightarrow> jsstring \<Rightarrow> CanonicalExpense" where
  "buildExpense raw normalized fp src checksum now1 now2 =
     (let docId = (case sourceTransactionId raw of Some t \<Rightarrow> t | None \<Rightarrow> fp) in
      \<lparr>expense_id = docId,
       fingerprint = fp,
       source = src,
       source_transaction_id = sourceTransactionId raw,
       date = n_date normalized,
       amount = n_amount normalized,
       currency = js ''INR'',
       vendor = n_vendor normalized,
       category = raw_category raw,
       status = (case raw_status raw of Some s \<Rightarrow> s | None \<Rightarrow> js ''completed''),
       raw_text = rawFields raw,
       source_file_checksum = checksum,
       created_at = now1,
       updated_at = now2\<rparr>)"

section \<open>Import jobs (types/expense.ts, services/firestoreService.ts)\<close>

datatype JobStatus = Queued | Processing | Completed | Failed

record ImportJob =
  jobId :: jsstring
  job_status :: JobStatus
  job_source :: ExpenseSource
  fileName :: jsstring
  job_checksum :: jsstring
  created :: nat
  skipped :: nat
  updated :: nat
  errors :: "jsstring list"
  started_at :: jsstring
  finished_at :: "jsstring option"

text \<open>
  The delta of \<open>updateJob\<close>, a \<open>Partial<Omit<ImportJob, 'jobId'>>\<close>: a field that is absent
  is \<open>None\<close>.
\<close>

record JobDelta =
  d_status :: "JobStatus option"
  d_source :: "ExpenseSource option"
  d_fileName :: "jsstring option"
  d_checksum :: "jsstring option"
  d_created :: "nat option"
  d_skipped :: "nat option"
  d_updated :: "nat option"
  d_errors :: "jsstring list option"
  d_started_at :: "jsstring option"
  d_finished_at :: "jsstring option option"

definition no_delta :: JobDelta where
  "no_delta =
     \<lparr>d_status = None, d_source = None, d_fileName = None, d_checksum = None,
      d_created = None, d_skipped = None, d_updated = None, d_errors = None,
      d_started_at = None, d_finished_at = None\<rparr>"

text \<open>
  The job collection: the documents with their keys, in the order of the keys, which is
  the order in which a query without \<open>orderBy\<close> returns them. \<open>put_doc\<close> is \<open>setDoc\<close>
  without merge.
\<close>

type_synonym job_store = "(jsstring \<times> ImportJob) list"

fun key_less :: "jsstring \<Rightarrow> jsstring \<Rightarrow> bool" where
  "key_less [] [] = False"
| "key_less [] (y # ys) = True"
| "key_less (x # xs) [] = False"
| "key_less (x # xs) (y # ys) = (x < y \<or> (x = y \<and> key_less xs ys))"

fun put_doc :: "jsstring \<Rightarrow> 'a \<Rightarrow> (jsstring \<times> 'a) list \<Rightarrow> (jsstring \<times> 'a) list" where
  "put_doc k v [] = [(k, v)]"
| "put_doc k v ((k', v') # rest) =
     (if k = k' then (k, v) # rest
      else if key_less k k' then (k, v) # (k', v') # rest
      else (k', v') # put_doc k v rest)"

text \<open>
  \<open>createJob\<close> writes the job at its \<open>jobId\<close> (the store adds a \<open>_serverTimestamp\<close> field,
  which no code reads).
\<close>

definition createJob :: "ImportJob \<Rightarrow> job_store \<Rightarrow> job_store" where
  "createJob job store = put_doc (jobId job) job store"

definition merge_job :: "JobDelta \<Rightarrow> ImportJob \<Rightarrow> ImportJob" where
  "merge_job delta job =
     job\<lparr>job_status := (case d_status delta of Some v \<Rightarrow> v | None \<Rightarrow> job_status job),
         job_source := (case d_source delta of Some v \<Rightarrow> v | None \<Rightarrow> job_source job),
         fileName := (case d_fileName delta of Some v \<Rightarrow> v | None \<Rightarrow> fileName job),
         job_checksum := (case d_checksum delta of Some v \<Rightarrow> v | None \<Rightarrow> job_checksum job),
         created := (case d_created delta of Some v \<Rightarrow> v | None \<Rightarrow> created job),
         skipped := (case d_skipped delta of Some v \<Rightarrow> v | None \<Rightarrow> skipped job),
         updated := (case d_updated delta of Some v \<Rightarrow> v | None \<Rightarrow> updated job),
         errors := (case d_errors delta of Some v \<Rightarrow> v | None \<Rightarrow> errors job),
         started_at := (case d_started_at delta of Some v \<Rightarrow> v | None \<Rightarrow> started_at job),
         finished_at := (case d_finished_at delta of Some v \<Rightarrow> v | None \<Rightarrow> finished_at job)\<rparr>"

text \<open>
  \<open>updateJob\<close> is \<open>setDoc\<close> with merge: the fields of the delta replace those of the
  stored job. \<open>upload\<close> calls it only after \<open>createJob\<close> has stored the job; on a key
  that is absent the store would create a document of the delta's fields alone, which
  is no \<open>ImportJob\<close>, and the model leaves the collection as it is.
\<close>

definition updateJob :: "jsstring \<Rightarrow> JobDelta \<Rightarrow> job_store \<Rightarrow> job_store" where
  "updateJob k delta store =
     (case map_of store k of
        Some job \<Rightarrow> put_doc k (merge_job delta job) store
      | None \<Rightarrow> store)"

definition getJob :: "jsstring \<Rightarrow> job_store \<Rightarrow> ImportJob option" where
  "getJob k store = map_of store k"

definition shortCircuitIfAlreadyProcessed :: "jsstring \<Rightarrow> job_store \<Rightarrow> ImportJob option" where
  "shortCircuitIfAlreadyProcessed checksum store =
     (case filter (\<lambda>(k, job). job_checksum job = checksum \<and> job_status job = Completed) store of
        [] \<Rightarrow> None
      | (k, job) # docs \<Rightarrow> Some job)"

section \<open>The upload pipeline (composables/useUpload.ts)\<close>

text \<open>
  What \<open>upload\<close> takes from outside the repository is a parameter: the generated job id,
  the readings of the clock and the keys the store generates (each indexed by the number
  of values taken so far), the hash functions of the crypto library on strings and on
  bytes, and the text extractor, which returns the text or fails with a message.
\<close>

record File =
  file_name :: jsstring
  file_bytes :: "nat list"

record Env =
  uuidv4 :: jsstring
  clock :: "nat \<Rightarrow> jsstring"
  autoId :: "nat \<Rightarrow> jsstring"
  SHA256 :: "jsstring \<Rightarrow> digest"
  SHA256_bytes :: "nat list \<Rightarrow> digest"
  extractPdfText :: "File \<Rightarrow> jsstring option \<Rightarrow> jsstring + jsstring"

definition computeFileChecksum :: "(nat list \<Rightarrow> digest) \<Rightarrow> File \<Rightarrow> jsstring" where
  "computeFileChecksum hash file = js ''sha256:'' @ Hex_stringify (hash (file_bytes file))"

text \<open>
  The calls that \<open>upload\<close> makes to the other modules are recorded in the order in which
  they are made.
\<close>

datatype call =
    Call_computeFileChecksum
  | Call_shortCircuitIfAlreadyProcessed
  | Call_createJob
  | Call_extractPdfText
  | Call_getParser
  | Call_parse
  | Call_upsertExpense
  | Call_updateJob

text \<open>
  The state that \<open>upload\<close> reads and writes: the two collections, the reactive values
  \<open>isLoading\<close>, \<open>progress\<close> (every value assigned, in order), \<open>job\<close> and \<open>error\<close>, the
  record of the calls, and how many clock readings and generated keys were taken.
\<close>

record UploadState =
  expenses :: expense_store
  jobs :: job_store
  isLoading :: bool
  progress :: "nat list"
  job_value :: "ImportJob option"
  error_value :: "jsstring option"
  calls :: "call list"
  clock_reads :: nat
  ids_taken :: nat

definition getParser :: "ExpenseSource \<Rightarrow> jsstring \<Rightarrow> RawTransaction list" where
  "getParser src =
     (case src of Phonepe \<Rightarrow> PhonePe_parse | Axis \<Rightarrow> Axis_parse
      | Hdfc \<Rightarrow> Hdfc_parse | Payzap \<Rightarrow> PayZap_parse)"

definition called :: "call \<Rightarrow> UploadState \<Rightarrow> UploadState" where
  "called c st = st\<lparr>calls := calls st @ [c]\<rparr>"

definition set_progress :: "nat \<Rightarrow> UploadState \<Rightarrow> UploadState" where
  "set_progress p st = st\<lparr>progress := progress st @ [p]\<rparr>"

definition now :: "Env \<Rightarrow> UploadState \<Rightarrow> jsstring" where
  "now env st = clock env (clock_reads st)"

definition tick :: "UploadState \<Rightarrow> UploadState" where
  "tick st = st\<lparr>clock_reads := Suc (clock_reads st)\<rparr>"

text \<open>\<open>30 + Math.round(((i + 1) / total) * 60)\<close>, computed on doubles.\<close>

definition row_progress :: "nat \<Rightarrow> nat \<Rightarrow> nat" where
  "row_progress i total_rows =
     (case Math_round (js_times (js_divide (Fin (of_nat (i + 1))) (Fin (of_nat total_rows)))
                         (Fin 60)) of
        Fin r \<Rightarrow> 30 + nat \<lfloor>r\<rfloor>
      | other \<Rightarrow> 30)"

text \<open>
  One pass of the row loop (step 6), for the row \<open>raw\<close> with index \<open>i\<close>: normalize,
  fingerprint, build the expense, upsert, count. A clock reading and a generated key
  are set aside for the upsert, whether the branch it takes uses them or not. In the
  model no step of a row fails, so the \<open>catch\<close> of the loop body is not taken.
\<close>

definition process_row ::
  "Env \<Rightarrow> ExpenseSource \<Rightarrow> DuplicatePolicy \<Rightarrow> jsstring \<Rightarrow> nat \<Rightarrow> nat \<times> RawTransaction
     \<Rightarrow> ImportJob \<times> UploadState \<Rightarrow> ImportJob \<times> UploadState" where
  "process_row env src policy checksum total_rows row acc =
     (let (i, raw) = row; (currentJob, st) = acc;
          normalized = normalizeRecord raw;
          fp = computeFingerprint (SHA256 env) (n_date normalized) (n_amount normalized)
                 (n_vendor normalized) (Some (n_transactionType normalized));
          expense = buildExpense raw normalized fp src checksum (now env st) (now env (tick st));
          st1 = tick (tick st);
          (store', result) = upsertExpense (autoId env (ids_taken st1)) (now env st1)
                               (expenses st1) expense policy;
          st2 = called Call_upsertExpense
                  ((tick st1)\<lparr>expenses := store', ids_taken := Suc (ids_taken st1)\<rparr>);
          job' = (case action result of
                    Created \<Rightarrow> currentJob\<lparr>created := Suc (created currentJob)\<rparr>
                  | Skipped \<Rightarrow> currentJob\<lparr>skipped := Suc (skipped currentJob)\<rparr>
                  | Updated \<Rightarrow> currentJob\<lparr>updated := Suc (updated currentJob)\<rparr>
                  | Marked_duplicate \<Rightarrow> currentJob)
      in (job', set_progress (row_progress i total_rows) st2))"

text \<open>The \<open>catch\<close> and \<open>finally\<close> of \<open>upload\<close>: the job fails with the message of the error.\<close>

definition fail_upload ::
  "Env \<Rightarrow> ImportJob \<Rightarrow> jsstring \<Rightarrow> UploadState \<Rightarrow> (jsstring + ImportJob) \<times> UploadState" where
  "fail_upload env currentJob message st =
     (let failed = currentJob\<lparr>job_status := Failed, finished_at := Some (now env st),
                              errors := errors currentJob @ [message]\<rparr>;
          st1 = called Call_updateJob
                  ((tick st)\<lparr>error_value := Some message,
                             jobs := updateJob (jobId currentJob)
                                       (no_delta\<lparr>d_status := Some Failed,
                                                 d_errors := Some (errors failed),
                                                 d_finished_at := Some (finished_at failed)\<rparr>)
                                       (jobs st)\<rparr>)
      in (Inl message, st1\<lparr>job_value := Some failed, isLoading := False\<rparr>))"

definition upload ::
  "Env \<Rightarrow> File \<Rightarrow> ExpenseSource \<Rightarrow> jsstring option \<Rightarrow> DuplicatePolicy \<Rightarrow> UploadState
     \<Rightarrow> (jsstring + ImportJob) \<times> UploadState" where
  "upload env file src password duplicatePolicy st0 =
     (let st1 = st0\<lparr>isLoading := True, error_value := None, progress := progress st0 @ [0]\<rparr>;
          start = now env st1;
          st2 = tick st1;
          queued = \<lparr>jobId = uuidv4 env, job_status = Queued, job_source = src,
                    fileName = file_name file, job_checksum = [], created = 0, skipped = 0,
                    updated = 0, errors = [], started_at = start, finished_at = None\<rparr>;
          st3 = called Call_computeFileChecksum (set_progress 5 st2);
          checksum = computeFileChecksum (SHA256_bytes env) file;
          st4 = called Call_shortCircuitIfAlreadyProcessed st3
      in case shortCircuitIfAlreadyProcessed checksum (jobs st4) of
           Some existingJob \<Rightarrow>
             (let shortCircuitJob =
                    existingJob\<lparr>jobId := uuidv4 env, started_at := start,
                                finished_at := Some (now env st4), job_status := Completed,
                                errors := [js ''File already processed in job ''
                                           @ jobId existingJob
                                           @ js ''. All records skipped.'']\<rparr>;
                  st5 = called Call_createJob
                          ((tick st4)\<lparr>jobs := createJob shortCircuitJob (jobs st4)\<rparr>)
              in (Inr shortCircuitJob,
                  st5\<lparr>job_value := Some shortCircuitJob, isLoading := False\<rparr>))
         | None \<Rightarrow>
             (let processing = queued\<lparr>job_checksum := checksum, job_status := Processing\<rparr>;
                  st5 = called Call_createJob (st4\<lparr>jobs := createJob processing (jobs st4)\<rparr>);
                  st6 = called Call_extractPdfText
                          (set_progress 15 (st5\<lparr>job_value := Some processing\<rparr>))
              in case extractPdfText env file password of
                   Inl message \<Rightarrow> fail_upload env processing message st6
                 | Inr pdfText \<Rightarrow>
                     (let st7 = called Call_parse (called Call_getParser (set_progress 30 st6));
                          rawTransactions = getParser src pdfText;
                          total_rows = length rawTransactions
                      in if total_rows = 0
                         then fail_upload env processing
                                (js ''No transactions found in the PDF. Please verify the source and file format.'')
                                st7
                         else
                           (let (counted, st8) =
                                  fold (process_row env src duplicatePolicy checksum total_rows)
                                    (zip [0 ..< total_rows] rawTransactions) (processing, st7);
                                completed = counted\<lparr>job_status := Completed,
                                                    finished_at := Some (now env st8)\<rparr>;
                                st9 = called Call_updateJob
                                        ((tick st8)\<lparr>jobs :=
                                           updateJob (uuidv4 env)
                                             (no_delta\<lparr>d_status := Some Completed,
                                                       d_created := Some (created completed),
                                                       d_skipped := Some (skipped completed),
                                                       d_updated := Some (updated completed),
                                                       d_errors := Some (errors completed),
                                                       d_finished_at := Some (finished_at completed)\<rparr>)
                                             (jobs st8)\<rparr>)
                            in (Inr completed,
                                (set_progress 100 st9)\<lparr>job_value := Some completed,
                                                        isLoading := False\<rparr>)))))"

section \<open>Sample values\<close>

text \<open>Sample values, used where a property is evaluated on a concrete input.\<close>

definition sample_expense :: CanonicalExpense where
  "sample_expense =
     \<lparr>expense_id = js ''123456789012'',
      fingerprint = js ''9f2c'',
      source = Phonepe,
      source_transaction_id = Some (js ''123456789012''),
      date = js ''2026-02-10'',
      amount = Fin (699 / 2),
      currency = js ''INR'',
      vendor = js ''ACME GROCERIES'',
      category = None,
      status = js ''completed'',
      raw_text = [(''amount'', js ''349.50'')],
      source_file_checksum = js ''sha256:ab12'',
      created_at = js ''2026-02-11T08:00:00.000Z'',
      updated_at = js ''2026-02-11T08:00:00.000Z''\<rparr>"

definition sample_doc :: ExpenseDoc where
  "sample_doc = \<lparr>doc_fields = sample_expense, duplicateOf = None, isDuplicate = None\<rparr>"

definition sample_store :: expense_store where
  "sample_store = [js ''123456789012'' \<mapsto> sample_doc]"










definition sample_hash :: "jsstring \<Rightarrow> digest" where
  "sample_hash s = of_nat (length s)"

definition sample_env :: Env where
  "sample_env =
     \<lparr>uuidv4 = js ''job-2'',
      clock = (\<lambda>n. js ''2026-03-01T10:00:00.000Z''),
      autoId = (\<lambda>n. js ''Zx81''),
      SHA256 = sample_hash,
      SHA256_bytes = (\<lambda>bytes. of_nat (length bytes)),
      extractPdfText = (\<lambda>file password. Inl (js ''Invalid PDF structure.''))\<rparr>"

definition sample_file :: File where
  "sample_file = \<lparr>file_name = js ''statement.pdf'', file_bytes = [37, 80, 68, 70]\<rparr>"

definition sample_prior_job :: ImportJob where
  "sample_prior_job =
     \<lparr>jobId = js ''job-1'', job_status = Completed, job_source = Axis,
      fileName = js ''statement.pdf'',
      job_checksum = computeFileChecksum (SHA256_bytes sample_env) sample_file,
      created = 3, skipped = 0, updated = 0, errors = [],
      started_at = js ''2026-02-28T09:00:00.000Z'',
      finished_at = Some (js ''2026-02-28T09:00:05.000Z'')\<rparr>"

definition sample_upload_state :: UploadState where
  "sample_upload_state =
     \<lparr>expenses = sample_store, jobs = [(js ''job-1'', sample_prior_job)], isLoading = False,
      progress = [], job_value = None, error_value = None, calls = [], clock_reads = 0,
      ids_taken = 0\<rparr>"

section \<open>Properties of the parsers\<close>


























section \<open>Properties of normalizeAmount\<close>






















section \<open>Properties of computeFingerprint\<close>









section \<open>Properties of upsertExpense\<close>



lemma upsertExpense_mark_present:
  "store (upsert_docId expense) = Some d \<Longrightarrow>
   upsertExpense newId stamp store expense Mark_duplicate =
     (store(newId \<mapsto>
        \<lparr>doc_fields = expense\<lparr>updated_at := stamp\<rparr>,
         duplicateOf = Some (upsert_docId expense), isDuplicate = Some True\<rparr>),
      \<lparr>action = Marked_duplicate, result_id = newId\<rparr>)"
  by (simp add: upsertExpense_def Let_def)


lemma js_eq_iff: "js a = js b \<longleftrightarrow> a = b"
proof -
  have "inj (of_char :: char \<Rightarrow> nat)"
    by (rule inj_of_char)
  then show ?thesis
    by (simp add: js_def)
qed




text \<open>
  C8. An upsert under policy \<open>mark_duplicate\<close> whose key already exists, with a
  generated key that is fresh for the store: the record is written at the generated
  key with \<open>_duplicateOf\<close> the existing key and \<open>_isDuplicate\<close> true, the result is
  \<open>marked_duplicate\<close> with the generated key as id, the number of documents grows by
  one, and every other document, the original among them, is as it was.
\<close>

theorem upsert_mark_duplicate:
  assumes "store (upsert_docId expense) = Some original"
      and "store newId = None"
      and "finite (dom store)"
  shows "let (s', r) = upsertExpense newId stamp store expense Mark_duplicate
         in s' newId = Some \<lparr>doc_fields = expense\<lparr>updated_at := stamp\<rparr>,
                               duplicateOf = Some (upsert_docId expense),
                               isDuplicate = Some True\<rparr>
            \<and> action r = Marked_duplicate \<and> result_id r = newId
            \<and> card (dom s') = Suc (card (dom store))
            \<and> s' (upsert_docId expense) = Some original
            \<and> (\<forall>k. k \<noteq> newId \<longrightarrow> s' k = store k)"
proof -
  have ne: "newId \<noteq> upsert_docId expense"
    using assms(1,2) by auto
  have notin: "newId \<notin> dom store"
    using assms(2) by (simp add: domIff)
  have run: "upsertExpense newId stamp store expense Mark_duplicate =
      (store(newId \<mapsto>
         \<lparr>doc_fields = expense\<lparr>updated_at := stamp\<rparr>,
          duplicateOf = Some (upsert_docId expense), isDuplicate = Some True\<rparr>),
       \<lparr>action = Marked_duplicate, result_id = newId\<rparr>)"
    using assms(1) by (rule upsertExpense_mark_present)
  show ?thesis
    using assms(1,3) ne notin by (simp add: run)
qed

theorem upsert_mark_duplicate_witness:
  "sample_store (upsert_docId sample_expense) = Some sample_doc
   \<and> sample_store (js ''Zx81'') = None
   \<and> finite (dom sample_store)
   \<and> (let (s', r) = upsertExpense (js ''Zx81'') (js ''2026-03-01'') sample_store sample_expense
                       Mark_duplicate
       in duplicateOf (the (s' (js ''Zx81''))) = Some (js ''123456789012'')
          \<and> isDuplicate (the (s' (js ''Zx81''))) = Some True
          \<and> action r = Marked_duplicate \<and> result_id r = js ''Zx81''
          \<and> card (dom s') = 2
          \<and> s' (js ''123456789012'') = Some sample_doc)"
proof -
  have a: "sample_store (upsert_docId sample_expense) = Some sample_doc"
    by (simp add: sample_store_def upsert_docId_def sample_expense_def)
  have b: "sample_store (js ''Zx81'') = None"
    by (simp add: sample_store_def js_eq_iff)
  have c: "finite (dom sample_store)"
    by (simp add: sample_store_def)
  have d: "card (dom sample_store) = 1"
    by (simp add: sample_store_def)
  have e: "upsert_docId sample_expense = js ''123456789012''"
    by (simp add: upsert_docId_def sample_expense_def)
  show ?thesis
    using upsert_mark_duplicate [OF a b c, of "js ''2026-03-01''"] a b c d e
    by (simp split: prod.splits)
qed





section \<open>Properties of upload\<close>

lemma shortCircuit_found:
  assumes "(k, j) \<in> set store" and "job_checksum j = c" and "job_status j = Completed"
  shows "\<exists>e. shortCircuitIfAlreadyProcessed c store = Some e \<and> e \<in> snd ` set store
             \<and> job_checksum e = c \<and> job_status e = Completed"
proof -
  let ?P = "\<lambda>(k, job). job_checksum job = c \<and> job_status job = Completed"
  have "(k, j) \<in> set (filter ?P store)"
    using assms by simp
  then obtain k' e rest where f: "filter ?P store = (k', e) # rest"
    by (cases "filter ?P store") auto
  then have "(k', e) \<in> set (filter ?P store)"
    by simp
  then have "(k', e) \<in> set store" and "job_checksum e = c \<and> job_status e = Completed"
    by auto
  moreover have "shortCircuitIfAlreadyProcessed c store = Some e"
    by (simp add: shortCircuitIfAlreadyProcessed_def f)
  ultimately show ?thesis
    by force
qed

lemma upload_short_circuit_run:
  assumes "shortCircuitIfAlreadyProcessed (computeFileChecksum (SHA256_bytes env) file) (jobs st)
             = Some e"
  shows "\<exists>job st'. upload env file src password policy st = (Inr job, st')
           \<and> job = e\<lparr>jobId := uuidv4 env, started_at := clock env (clock_reads st),
                       finished_at := Some (clock env (Suc (clock_reads st))),
                       job_status := Completed,
                       errors := [js ''File already processed in job '' @ jobId e
                                  @ js ''. All records skipped.'']\<rparr>
           \<and> expenses st' = expenses st
           \<and> jobs st' = createJob job (jobs st)
           \<and> calls st' = calls st @ [Call_computeFileChecksum,
                                      Call_shortCircuitIfAlreadyProcessed, Call_createJob]
           \<and> job_value st' = Some job \<and> isLoading st' = False"
  using assms
  by (simp add: upload_def Let_def called_def set_progress_def now_def tick_def)

lemma upload_short_circuit_same:
  assumes "shortCircuitIfAlreadyProcessed (computeFileChecksum (SHA256_bytes env) file) (jobs st)
             = Some e"
  shows "upload (env\<lparr>extractPdfText := x\<rparr>) file src' password' policy' st
           = upload env file src password policy st"
  using assms
  by (simp add: upload_def Let_def called_def set_progress_def now_def tick_def)

text \<open>
  C7. An upload of a file whose checksum is that of a completed job in the job
  collection returns a new job: its id is the generated one, its status is \<open>completed\<close>,
  its counts are those of the earlier job, and its only error is the warning that names
  the earlier job's id. The new job is written to the job collection. The expense
  collection is unchanged, and the calls made are those of the checksum, of the
  short-circuit query and of \<open>createJob\<close>: the text extractor, the parser and
  \<open>upsertExpense\<close> are not called. Accordingly the outcome is the same for every text
  extractor, source (and so parser), password and duplicate policy.
\<close>

theorem upload_short_circuit:
  assumes "(k, prior) \<in> set (jobs st)"
      and "job_checksum prior = computeFileChecksum (SHA256_bytes env) file"
      and "job_status prior = Completed"
  shows "\<exists>job st' existing.
           upload env file src password policy st = (Inr job, st')
           \<and> existing \<in> snd ` set (jobs st)
           \<and> job_checksum existing = computeFileChecksum (SHA256_bytes env) file
           \<and> job_status existing = Completed
           \<and> jobId job = uuidv4 env
           \<and> job_status job = Completed
           \<and> errors job = [js ''File already processed in job '' @ jobId existing
                            @ js ''. All records skipped.'']
           \<and> created job = created existing \<and> skipped job = skipped existing
           \<and> updated job = updated existing
           \<and> finished_at job \<noteq> None
           \<and> jobs st' = createJob job (jobs st)
           \<and> expenses st' = expenses st
           \<and> calls st' = calls st @ [Call_computeFileChecksum,
                                      Call_shortCircuitIfAlreadyProcessed, Call_createJob]
           \<and> Call_parse \<notin> set (drop (length (calls st)) (calls st'))
           \<and> Call_extractPdfText \<notin> set (drop (length (calls st)) (calls st'))
           \<and> Call_upsertExpense \<notin> set (drop (length (calls st)) (calls st'))
           \<and> (\<forall>x src' password' policy'.
                 upload (env\<lparr>extractPdfText := x\<rparr>) file src' password' policy' st
                   = (Inr job, st'))"
proof -
  obtain e where e: "shortCircuitIfAlreadyProcessed (computeFileChecksum (SHA256_bytes env) file)
                       (jobs st) = Some e"
      and mem: "e \<in> snd ` set (jobs st)"
      and sum: "job_checksum e = computeFileChecksum (SHA256_bytes env) file"
      and completed: "job_status e = Completed"
    using shortCircuit_found [OF assms(1) assms(2) assms(3)] by blast
  obtain job st' where run: "upload env file src password policy st = (Inr job, st')"
      and job: "job = e\<lparr>jobId := uuidv4 env, started_at := clock env (clock_reads st),
                         finished_at := Some (clock env (Suc (clock_reads st))),
                         job_status := Completed,
                         errors := [js ''File already processed in job '' @ jobId e
                                    @ js ''. All records skipped.'']\<rparr>"
      and ex: "expenses st' = expenses st"
      and js: "jobs st' = createJob job (jobs st)"
      and cs: "calls st' = calls st @ [Call_computeFileChecksum,
                                       Call_shortCircuitIfAlreadyProcessed, Call_createJob]"
    using upload_short_circuit_run [OF e] by blast
  have same: "\<forall>x src' password' policy'.
      upload (env\<lparr>extractPdfText := x\<rparr>) file src' password' policy' st = (Inr job, st')"
    using upload_short_circuit_same [OF e] run by metis
  show ?thesis
    using run mem sum completed ex js cs same
    by (intro exI [of _ job] exI [of _ st'] exI [of _ e]) (simp add: job)
qed

theorem upload_short_circuit_witness:
  "(js ''job-1'', sample_prior_job) \<in> set (jobs sample_upload_state)
   \<and> job_checksum sample_prior_job = computeFileChecksum (SHA256_bytes sample_env) sample_file
   \<and> job_status sample_prior_job = Completed
   \<and> (\<exists>job st'.
         upload sample_env sample_file Axis None Skip sample_upload_state = (Inr job, st')
         \<and> jobId job = js ''job-2''
         \<and> job_status job = Completed
         \<and> errors job = [js ''File already processed in job job-1. All records skipped.'']
         \<and> created job = 3
         \<and> expenses st' = sample_store
         \<and> calls st' = [Call_computeFileChecksum, Call_shortCircuitIfAlreadyProcessed,
                         Call_createJob])"
proof -
  have a: "(js ''job-1'', sample_prior_job) \<in> set (jobs sample_upload_state)"
    by (simp add: sample_upload_state_def)
  have b: "job_checksum sample_prior_job
             = computeFileChecksum (SHA256_bytes sample_env) sample_file"
    by (simp add: sample_prior_job_def)
  have c: "job_status sample_prior_job = Completed"
    by (simp add: sample_prior_job_def)
  have only: "snd ` set (jobs sample_upload_state) = {sample_prior_job}"
    by (simp add: sample_upload_state_def)
  have fields: "jobId sample_prior_job = js ''job-1'' \<and> created sample_prior_job = 3"
    by (simp add: sample_prior_job_def)
  have st: "expenses sample_upload_state = sample_store \<and> calls sample_upload_state = []"
    by (simp add: sample_upload_state_def)
  have u: "uuidv4 sample_env = js ''job-2''"
    by (simp add: sample_env_def)
  have msg: "js ''File already processed in job '' @ js ''job-1'' @ js ''. All records skipped.''
               = js ''File already processed in job job-1. All records skipped.''"
    by (simp add: js_def)
  obtain job st' existing where
    "upload sample_env sample_file Axis None Skip sample_upload_state = (Inr job, st')"
    "existing \<in> snd ` set (jobs sample_upload_state)"
    "jobId job = uuidv4 sample_env"
    "job_status job = Completed"
    "errors job = [js ''File already processed in job '' @ jobId existing
                   @ js ''. All records skipped.'']"
    "created job = created existing"
    "expenses st' = expenses sample_upload_state"
    "calls st' = calls sample_upload_state @ [Call_computeFileChecksum,
                   Call_shortCircuitIfAlreadyProcessed, Call_createJob]"
    using upload_short_circuit [OF a b c, of Axis None Skip] by blast
  then have "upload sample_env sample_file Axis None Skip sample_upload_state = (Inr job, st')
         \<and> jobId job = js ''job-2''
         \<and> job_status job = Completed
         \<and> errors job = [js ''File already processed in job job-1. All records skipped.'']
         \<and> created job = 3
         \<and> expenses st' = sample_store
         \<and> calls st' = [Call_computeFileChecksum, Call_shortCircuitIfAlreadyProcessed,
                         Call_createJob]"
    using only fields st u msg by simp
  with a b c show ?thesis by blast
qed

end
